theory Spec2Isabelle
  imports Complex_Main
begin

section \<open>Pipeline change requests (gips\_app.cpp, \<^verbatim>\<open>App::handlePCR\<close>)\<close>

text \<open>
  The application keeps one pending \<^verbatim>\<open>PipelineChangeRequest\<close>, the 1-based index of the
  stage whose output is shown (\<^verbatim>\<open>m_showIndex\<close>, 0 for the input image) and the pipeline.
  Indices are C++ \<^verbatim>\<open>int\<close>s; they are modelled as unbounded integers, every theorem below
  staying within \<open>0 .. nodeCount + 1\<close>, far from the limits of a machine \<^verbatim>\<open>int\<close>.
\<close>

datatype PCR_Type =
  PCR_None | InsertNode | ReloadNode | RemoveNode | MoveNode
  | UpdateSource | LoadImage | SaveResult

record PipelineChangeRequest =
  pcr_type :: PCR_Type
  nodeIndex :: int
  targetIndex :: int
  path :: string

record 'n Pipeline =
  m_nodes :: "'n list"
  m_pipelineChanged :: bool

record 'n App =
  m_pcr :: PipelineChangeRequest
  m_showIndex :: int
  m_pipeline :: "'n Pipeline"

text \<open>
  What \<^verbatim>\<open>handlePCR\<close> calls outside the pipeline: loading a node from a path (\<open>None\<close> when it
  fails), reloading a node in place, and the three image operations, of which only the
  returned flag matters here.
\<close>

record 'n Collaborators =
  load_node :: "string \<Rightarrow> 'n option"
  reload_node :: "'n \<Rightarrow> 'n"
  updateImage :: bool
  loadImage :: "string \<Rightarrow> bool"
  isSaveImageFile :: "string \<Rightarrow> bool"

definition nodeCount :: "'n Pipeline \<Rightarrow> int" where
  "nodeCount p = int (length (m_nodes p))"

definition markAsChanged :: "'n Pipeline \<Rightarrow> 'n Pipeline" where
  "markAsChanged p = p\<lparr>m_pipelineChanged := True\<rparr>"

text \<open>
  Modelled from the spec: \<^verbatim>\<open>Pipeline::addNode\<close>, \<^verbatim>\<open>Pipeline::removeNode\<close> and
  \<^verbatim>\<open>Pipeline::moveNode\<close> (the pipeline's implementation file is not among the sources).
  The spec: insert ``loads and classifies/compiles a new Node; on success, inserts at
  atIndex (or appends if atIndex is out of range)''; remove ``deletes the Node at index'';
  move ``relocates a Node''; every structural edit sets the dirty flag. The indices these
  three take are 0-based, as \<^verbatim>\<open>handlePCR\<close> passes them.
\<close>

definition addNode :: "'n Collaborators \<Rightarrow> string \<Rightarrow> int \<Rightarrow> 'n Pipeline \<Rightarrow> bool \<times> 'n Pipeline" where
  "addNode env file idx p =
     (case load_node env file of
        None \<Rightarrow> (False, p)
      | Some n \<Rightarrow>
          (True,
           markAsChanged
             (p\<lparr>m_nodes :=
                  (if 0 \<le> idx \<and> idx < nodeCount p
                   then take (nat idx) (m_nodes p) @ [n] @ drop (nat idx) (m_nodes p)
                   else m_nodes p @ [n])\<rparr>)))"

text \<open>The one-argument call \<^verbatim>\<open>addNode(path)\<close> appends: its index is out of range.\<close>

definition addNode_end :: "'n Collaborators \<Rightarrow> string \<Rightarrow> 'n Pipeline \<Rightarrow> bool \<times> 'n Pipeline" where
  "addNode_end env file p = addNode env file (- 1) p"

definition removeNode :: "int \<Rightarrow> 'n Pipeline \<Rightarrow> 'n Pipeline" where
  "removeNode idx p =
     (if 0 \<le> idx \<and> idx < nodeCount p
      then markAsChanged
             (p\<lparr>m_nodes := take (nat idx) (m_nodes p) @ drop (Suc (nat idx)) (m_nodes p)\<rparr>)
      else p)"

definition moveNode :: "int \<Rightarrow> int \<Rightarrow> 'n Pipeline \<Rightarrow> 'n Pipeline" where
  "moveNode fromIdx toIdx p =
     (if 0 \<le> fromIdx \<and> fromIdx < nodeCount p \<and> 0 \<le> toIdx \<and> toIdx < nodeCount p
      then (let n = m_nodes p ! nat fromIdx;
                others = take (nat fromIdx) (m_nodes p) @ drop (Suc (nat fromIdx)) (m_nodes p)
            in markAsChanged
                 (p\<lparr>m_nodes := take (nat toIdx) others @ [n] @ drop (nat toIdx) others\<rparr>))
      else p)"

definition reloadNode :: "'n Collaborators \<Rightarrow> int \<Rightarrow> 'n Pipeline \<Rightarrow> 'n Pipeline" where
  "reloadNode env idx p =
     (if 0 \<le> idx \<and> idx < nodeCount p
      then p\<lparr>m_nodes := (m_nodes p)[nat idx := reload_node env (m_nodes p ! nat idx)]\<rparr>
      else p)"

text \<open>The tail of \<^verbatim>\<open>handlePCR\<close>: the request is cleared.\<close>

definition resetPCR :: "'n App \<Rightarrow> 'n App" where
  "resetPCR app =
     app\<lparr>m_pcr := \<lparr>pcr_type = PCR_None, nodeIndex = 0, targetIndex = 0, path = []\<rparr>\<rparr>"

text \<open>
  \<^verbatim>\<open>App::handlePCR\<close>, case by case as in the source; the result is the returned flag and
  the application state afterwards. \<^verbatim>\<open>SaveResult\<close> on a savable file returns before the
  request is cleared.
\<close>

definition handlePCR :: "'n Collaborators \<Rightarrow> 'n App \<Rightarrow> bool \<times> 'n App" where
  "handlePCR env app =
     (let pcr = m_pcr app; pl = m_pipeline app; showIdx = m_showIndex app;
          validNodeIndex = (nodeIndex pcr > 0 \<and> nodeIndex pcr \<le> nodeCount pl)
      in case pcr_type pcr of
           PCR_None \<Rightarrow> (False, app)
         | InsertNode \<Rightarrow>
             (if validNodeIndex
              then (case addNode env (path pcr) (nodeIndex pcr - 1) pl of
                      (ok, pl') \<Rightarrow>
                        (True, resetPCR (app\<lparr>m_pipeline := pl',
                                 m_showIndex := (if ok \<and> showIdx \<ge> nodeIndex pcr
                                                 then showIdx + 1 else showIdx)\<rparr>)))
              else (let oldNodeCount = nodeCount pl
                    in case addNode_end env (path pcr) pl of
                         (ok, pl') \<Rightarrow>
                           (True, resetPCR (app\<lparr>m_pipeline := pl',
                                    m_showIndex := (if ok \<and> showIdx = oldNodeCount
                                                    then showIdx + 1 else showIdx)\<rparr>))))
         | ReloadNode \<Rightarrow>
             (if validNodeIndex
              then (True, resetPCR (app\<lparr>m_pipeline := reloadNode env (nodeIndex pcr - 1) pl\<rparr>))
              else (False, resetPCR app))
         | RemoveNode \<Rightarrow>
             (if validNodeIndex
              then (True, resetPCR (app\<lparr>m_pipeline := removeNode (nodeIndex pcr - 1) pl,
                             m_showIndex := (if showIdx \<ge> nodeIndex pcr
                                             then showIdx - 1 else showIdx)\<rparr>))
              else (False, resetPCR app))
         | MoveNode \<Rightarrow>
             (if validNodeIndex \<and> nodeIndex pcr \<noteq> targetIndex pcr
                 \<and> targetIndex pcr > 0 \<and> targetIndex pcr \<le> nodeCount pl
              then (True, resetPCR (app\<lparr>m_pipeline := moveNode (nodeIndex pcr - 1) (targetIndex pcr - 1) pl,
                             m_showIndex :=
                               (if showIdx > min (nodeIndex pcr) (targetIndex pcr)
                                   \<and> showIdx < max (nodeIndex pcr) (targetIndex pcr)
                                then (if nodeIndex pcr < targetIndex pcr
                                      then showIdx - 1 else showIdx + 1)
                                else showIdx)\<rparr>))
              else (False, resetPCR app))
         | UpdateSource \<Rightarrow>
             (False, resetPCR (if updateImage env
                               then app\<lparr>m_pipeline := markAsChanged pl\<rparr> else app))
         | LoadImage \<Rightarrow>
             (False, resetPCR (if loadImage env (path pcr)
                               then app\<lparr>m_pipeline := markAsChanged pl\<rparr> else app))
         | SaveResult \<Rightarrow>
             (if isSaveImageFile env (path pcr) then (True, app)
              else (False, resetPCR app)))"

text \<open>A request as the user interface files it.\<close>

definition request :: "PCR_Type \<Rightarrow> int \<Rightarrow> int \<Rightarrow> string \<Rightarrow> 'n App \<Rightarrow> 'n App" where
  "request t i j file app =
     app\<lparr>m_pcr := \<lparr>pcr_type = t, nodeIndex = i, targetIndex = j, path = file\<rparr>\<rparr>"

definition shown :: "'n Collaborators \<Rightarrow> 'n App \<Rightarrow> int" where
  "shown env app = m_showIndex (snd (handlePCR env app))"

definition nodes_after :: "'n Collaborators \<Rightarrow> 'n App \<Rightarrow> 'n list" where
  "nodes_after env app = m_nodes (m_pipeline (snd (handlePCR env app)))"

text \<open>
  The renumbering rules in the spec's words, for comparison with the code: after an insert
  the shown index ``increments by one'' exactly when it ``was \<open>\<ge>\<close> the insertion point'';
  after a move it ``shifts by one in the direction opposite to the moved node's direction
  of travel'' when strictly between \<open>from\<close> and \<open>to\<close>, and ``travels with the node to
  \<open>to\<close>'' when it equals \<open>from\<close>.
\<close>

definition spec_insert_shown :: "int \<Rightarrow> int \<Rightarrow> int" where
  "spec_insert_shown showIdx insertionPoint =
     (if showIdx \<ge> insertionPoint then showIdx + 1 else showIdx)"

definition spec_move_shown :: "int \<Rightarrow> int \<Rightarrow> int \<Rightarrow> int" where
  "spec_move_shown showIdx fromIdx toIdx =
     (if min fromIdx toIdx < showIdx \<and> showIdx < max fromIdx toIdx
      then (if fromIdx < toIdx then showIdx - 1 else showIdx + 1)
      else if showIdx = fromIdx then toIdx
      else showIdx)"

text \<open>A concrete application for the examples: nodes are numbers, every load yields node 0.\<close>

definition demo_env :: "nat Collaborators" where
  "demo_env = \<lparr>load_node = (\<lambda>file. Some 0), reload_node = (\<lambda>n. n), updateImage = False,
                loadImage = (\<lambda>file. False), isSaveImageFile = (\<lambda>file. False)\<rparr>"

definition demo_app :: "nat list \<Rightarrow> int \<Rightarrow> nat App" where
  "demo_app ns showIdx =
     \<lparr>m_pcr = \<lparr>pcr_type = PCR_None, nodeIndex = 0, targetIndex = 0, path = []\<rparr>,
      m_showIndex = showIdx,
      m_pipeline = \<lparr>m_nodes = ns, m_pipelineChanged = False\<rparr>\<rparr>"

section \<open>The shader loader of the richer dialect (\<^verbatim>\<open>Node::load\<close>, unnamed part 2)\<close>

unbundle bit_operations_syntax

subsection \<open>Data\<close>

datatype GLSLToken =
  Other | Ignored | Uniform | Float | Vec2 | Vec3 | Vec4
  | RunSingle | RunPass1 | RunPass2 | RunPass3 | RunPass4
  | OpenParens | CloseParens

datatype PassInput = Coord | InRGB | InRGBA

datatype PassOutput = OutRGB | OutRGBA

text \<open>
  Modelled from the spec: the enumerations \<^verbatim>\<open>ParameterType\<close> and \<^verbatim>\<open>CoordMapMode\<close>, the
  constant \<^verbatim>\<open>MaxPasses\<close> and the members of \<^verbatim>\<open>Parameter\<close>, of a pass and of \<^verbatim>\<open>Node\<close>
  (the header gips\_core.h is not among the sources). The spec: semantic type
  ``\<open>\<in>\<close> {Toggle, Value, Value2, Value3, Value4, RGB, RGBA}'', coordinate-mapping mode
  ``\<open>\<in>\<close> {None, Pixel, Relative}'', ``MaxPasses=4'', uniform handle ``\<open>-1\<close> if unused''.
  \<^verbatim>\<open>float\<close> values are only parsed and stored by the loader, never computed with; they
  are carried as rationals.
\<close>

datatype ParameterType = Toggle | Value | Value2 | Value3 | Value4 | RGB | RGBA

datatype CoordMapMode = CoordNone | Pixel | Relative

definition MaxPasses :: nat where
  "MaxPasses = 4"

record Parameter =
  m_name :: string
  m_desc :: string
  m_type :: ParameterType
  m_minValue :: rat
  m_maxValue :: rat
  m_value :: "rat list"
  m_format :: string
  m_location :: "int list"

record Pass =
  pass_texFilter :: bool
  pass_coordMode :: CoordMapMode
  pass_program :: "string option"
  locImageSize :: int
  locRel2Map :: int
  locMap2Tex :: int

record Node =
  m_passCount :: nat
  m_filename :: string
  m_name_node :: string
  m_passes :: "Pass list"
  m_params :: "Parameter list"
  m_errors :: string

text \<open>
  The input of the analysis is the sequence of lexemes that \<^verbatim>\<open>tok.next()\<close> yields, a
  comment already extended to its end: \<open>Comment\<close> carries the text after the two-character
  opener (for \<^verbatim>\<open>/* */\<close> without the closing two characters), \<open>Token\<close> the text of any other
  token.
\<close>

datatype lexeme = Comment string | Token string

text \<open>
  What the loader calls and the sources do not contain: the identifier-character test and
  the tokenizer of \<^verbatim>\<open>StringUtil\<close>, the C library's \<^verbatim>\<open>strtof\<close> (the value and the text left
  unparsed), the shader compiler and linker of the GL layer (the log, if any, and whether
  the result is good; both get the fragment source), its uniform lookup, the initial
  \<^verbatim>\<open>m_minValue\<close> and \<^verbatim>\<open>m_maxValue\<close> of a fresh \<^verbatim>\<open>Parameter\<close>, and the number of decimals the
  floating-point format scaling arrives at for a pair of bounds.
\<close>

record Env =
  isident :: "char \<Rightarrow> bool"
  tokenize :: "string \<Rightarrow> lexeme list"
  strtof :: "string \<Rightarrow> rat \<times> string"
  compile_fs :: "string \<Rightarrow> string option \<times> bool"
  link_prog :: "string \<Rightarrow> string option \<times> bool"
  getUniformLocation :: "string \<Rightarrow> string \<Rightarrow> int"
  minValue0 :: rat
  maxValue0 :: rat
  vscale :: "rat \<Rightarrow> rat \<Rightarrow> nat"

text \<open>The locals of \<^verbatim>\<open>Node::load\<close>, with the member array \<^verbatim>\<open>m_passes\<close> it writes to.
  \<open>param\<close> points into \<open>newParams\<close>: it is the index of the parameter, \<open>None\<close> for
  \<^verbatim>\<open>nullptr\<close>.\<close>

record load_state =
  newParams :: "Parameter list"
  shader :: string
  err :: string
  param :: "nat option"
  paramDataType :: GLSLToken
  paramValueIndex :: int
  inParamStatement :: bool
  currentPass :: nat
  passMask :: int
  singlePass :: bool
  inputs :: "PassInput list"
  outputs :: "PassOutput list"
  texFilter :: bool
  coordMode :: CoordMapMode
  tt :: "GLSLToken list"
  passes :: "Pass list"

subsection \<open>Characters and strings\<close>

definition sq :: char where
  "sq = CHR 0x27"

definition nl :: char where
  "nl = CHR 0x0A"

text \<open>The C locale's \<^verbatim>\<open>isalnum\<close>, \<^verbatim>\<open>tolower\<close> and \<^verbatim>\<open>isspace\<close> on bytes.\<close>

definition isalnum :: "char \<Rightarrow> bool" where
  "isalnum c = (let n = (of_char c :: nat)
                in (48 \<le> n \<and> n \<le> 57) \<or> (65 \<le> n \<and> n \<le> 90) \<or> (97 \<le> n \<and> n \<le> 122))"

definition tolower :: "char \<Rightarrow> char" where
  "tolower c = (let n = (of_char c :: nat)
                in if 65 \<le> n \<and> n \<le> 90 then char_of (n + 32) else c)"

definition isspace :: "char \<Rightarrow> bool" where
  "isspace c = (let n = (of_char c :: nat) in n = 32 \<or> (9 \<le> n \<and> n \<le> 13))"

text \<open>Modelled from the spec: \<^verbatim>\<open>StringUtil::skipWhitespace\<close> and
  \<^verbatim>\<open>StringUtil::trimTrailingWhitespace\<close> (not among the sources); the spec: the remaining
  text is ``trimmed of surrounding whitespace''.\<close>

definition skipWhitespace :: "string \<Rightarrow> string" where
  "skipWhitespace s = dropWhile isspace s"

definition trimTrailingWhitespace :: "string \<Rightarrow> string" where
  "trimTrailingWhitespace s = rev (dropWhile isspace (rev s))"

text \<open>\<^verbatim>\<open>std::to_string\<close> and the stream output of a non-negative \<^verbatim>\<open>int\<close>: decimal digits.\<close>

fun to_string :: "nat \<Rightarrow> string" where
  "to_string n = (if n < 10 then [char_of (48 + n)]
                  else to_string (n div 10) @ [char_of (48 + n mod 10)])"

declare to_string.simps [simp del]

text \<open>The table \<^verbatim>\<open>tokenMap\<close>; \<^verbatim>\<open>StringUtil::lookup\<close> returns the entry of the first equal
  name and the terminating entry's \<open>Other\<close> when there is none.\<close>

definition tokenMap :: "(string \<times> GLSLToken) list" where
  "tokenMap =
     [(''in'', Ignored), (''uniform'', Uniform), (''float'', Float), (''vec2'', Vec2),
      (''vec3'', Vec3), (''vec4'', Vec4), (''run'', RunSingle), (''run_pass1'', RunPass1),
      (''run_pass2'', RunPass2), (''run_pass3'', RunPass3), (''run_pass4'', RunPass4),
      (''('', OpenParens), ('')'', CloseParens), (''){'', CloseParens)]"

definition lookup :: "(string \<times> GLSLToken) list \<Rightarrow> string \<Rightarrow> GLSLToken" where
  "lookup table s = (case map_of table s of None \<Rightarrow> Other | Some t \<Rightarrow> t)"

subsection \<open>Diagnostics\<close>

definition msg_needParam :: "string \<Rightarrow> string" where
  "msg_needParam key =
     ''(GIPS) '' @ [sq] @ ''@'' @ key @ [sq] @ '' token is only valid inside a parameter comment'' @ [nl]"

definition msg_needValue :: "string \<Rightarrow> string" where
  "msg_needValue key = ''(GIPS) '' @ [sq] @ ''@'' @ key @ [sq] @ '' token requires a value'' @ [nl]"

definition msg_needNum :: "string \<Rightarrow> string" where
  "msg_needNum key =
     ''(GIPS) '' @ [sq] @ ''@'' @ key @ [sq] @ '' token requires a numeric value'' @ [nl]"

definition msg_incompatible :: "string \<Rightarrow> string \<Rightarrow> string" where
  "msg_incompatible key name =
     ''(GIPS) '' @ [sq] @ ''@'' @ key @ [sq]
     @ '' format is incompatible with uniform data type of parameter '' @ [sq] @ name @ [sq] @ [nl]"

definition msg_coordMode :: "string \<Rightarrow> string" where
  "msg_coordMode v = ''(GIPS) unrecognized coordinate mapping mode '' @ [sq] @ v @ [sq] @ [nl]"

definition msg_texFilter :: "string \<Rightarrow> string" where
  "msg_texFilter v = ''(GIPS) unrecognized texture filtering mode '' @ [sq] @ v @ [sq] @ [nl]"

definition msg_unrecognized :: "string \<Rightarrow> string" where
  "msg_unrecognized key = ''(GIPS) unrecognized token '' @ [sq] @ ''@'' @ key @ [sq] @ [nl]"

definition msg_unsupported :: "string \<Rightarrow> string" where
  "msg_unsupported t =
     ''(GIPS) uniform variable '' @ [sq] @ t @ [sq] @ '' has unsupported data type'' @ [nl]"

definition msg_no_run :: string where
  "msg_no_run =
     ''(GIPS) no valid '' @ [sq] @ ''run'' @ [sq] @ '' or '' @ [sq] @ ''run_pass1'' @ [sq]
     @ '' function found'' @ [nl]"

definition msg_truncating :: string where
  "msg_truncating = ''(GIPS) intermediate passes are missing, truncating pipeline'' @ [nl]"

subsection \<open>Evaluation of one \<^verbatim>\<open>@key[=value]\<close> token\<close>

text \<open>
  The helper lambdas of the source have side effects (\<^verbatim>\<open>isKey\<close> sets \<^verbatim>\<open>keyMatched\<close>, the
  \<^verbatim>\<open>need...\<close> helpers and \<^verbatim>\<open>setParamType\<close> write diagnostics) and stand in short-circuit
  conditions of an \<^verbatim>\<open>if ... else if\<close> chain. A condition is therefore a function from the
  state (\<^verbatim>\<open>keyMatched\<close> paired with the loader's locals) to its truth value and the state
  afterwards; \<open>andalso\<close> and \<open>orelse\<close> are \<^verbatim>\<open>&&\<close> and \<^verbatim>\<open>||\<close>, and \<open>if_chain\<close> runs the body of
  the first condition that holds. The lambdas are declared \<^verbatim>\<open>static\<close> and capture by
  reference; they are read as referring to the current variables of the loop.
\<close>

type_synonym tok_state = "bool \<times> load_state"

type_synonym cond = "tok_state \<Rightarrow> bool \<times> tok_state"

definition andalso :: "cond \<Rightarrow> cond \<Rightarrow> cond" where
  "andalso a b = (\<lambda>s. if fst (a s) then b (snd (a s)) else (False, snd (a s)))"

definition orelse :: "cond \<Rightarrow> cond \<Rightarrow> cond" where
  "orelse a b = (\<lambda>s. if fst (a s) then (True, snd (a s)) else b (snd (a s)))"

fun if_chain :: "(cond \<times> (tok_state \<Rightarrow> tok_state)) list \<Rightarrow> tok_state \<Rightarrow> tok_state" where
  "if_chain [] s = s"
| "if_chain ((c, body) # rest) s =
     (if fst (c s) then body (snd (c s)) else if_chain rest (snd (c s)))"

definition on_state :: "(load_state \<Rightarrow> load_state) \<Rightarrow> tok_state \<Rightarrow> tok_state" where
  "on_state f = (\<lambda>(keyMatched, st). (keyMatched, f st))"

definition upd_param :: "(Parameter \<Rightarrow> Parameter) \<Rightarrow> load_state \<Rightarrow> load_state" where
  "upd_param f st =
     (case param st of
        None \<Rightarrow> st
      | Some i \<Rightarrow> st\<lparr>newParams := (newParams st)[i := f (newParams st ! i)]\<rparr>)"

definition param_name :: "load_state \<Rightarrow> string" where
  "param_name st = (case param st of None \<Rightarrow> [] | Some i \<Rightarrow> m_name (newParams st ! i))"

definition isKey :: "string \<Rightarrow> string \<Rightarrow> cond" where
  "isKey key t = (\<lambda>(keyMatched, st). (key = t, (keyMatched \<or> key = t, st)))"

definition needParam :: "string \<Rightarrow> cond" where
  "needParam key =
     (\<lambda>(keyMatched, st).
        (param st \<noteq> None,
         (keyMatched, if param st = None then st\<lparr>err := err st @ msg_needParam key\<rparr> else st)))"

definition needValue :: "string \<Rightarrow> string option \<Rightarrow> cond" where
  "needValue key v =
     (\<lambda>(keyMatched, st).
        (v \<noteq> None,
         (keyMatched, if v = None then st\<lparr>err := err st @ msg_needValue key\<rparr> else st)))"

definition needNum :: "string \<Rightarrow> bool \<Rightarrow> cond" where
  "needNum key isNum =
     (\<lambda>(keyMatched, st).
        (isNum, (keyMatched, if \<not> isNum then st\<lparr>err := err st @ msg_needNum key\<rparr> else st)))"

definition setParamType :: "string \<Rightarrow> GLSLToken \<Rightarrow> ParameterType \<Rightarrow> bool \<Rightarrow> cond" where
  "setParamType key dt pt fail =
     (\<lambda>(keyMatched, st).
        if paramDataType st \<noteq> dt
        then (False,
              (keyMatched,
               if fail then st\<lparr>err := err st @ msg_incompatible key (param_name st)\<rparr> else st))
        else (True, (keyMatched, upd_param (\<lambda>p. p\<lparr>m_type := pt\<rparr>) st)))"

definition notMatched :: cond where
  "notMatched = (\<lambda>(keyMatched, st). (\<not> keyMatched, (keyMatched, st)))"

definition set_coordMode :: "string \<Rightarrow> load_state \<Rightarrow> load_state" where
  "set_coordMode v st =
     (if v = ''pixel'' then st\<lparr>coordMode := Pixel\<rparr>
      else if v = ''none'' then st\<lparr>coordMode := CoordNone\<rparr>
      else if v = ''relative'' \<or> v = ''rel'' then st\<lparr>coordMode := Relative\<rparr>
      else st\<lparr>err := err st @ msg_coordMode v\<rparr>)"

definition set_texFilter :: "string \<Rightarrow> load_state \<Rightarrow> load_state" where
  "set_texFilter v st =
     (if v = ''1'' \<or> v = ''on'' \<or> v = ''linear'' \<or> v = ''bilinear'' then st\<lparr>texFilter := True\<rparr>
      else if v = ''0'' \<or> v = ''off'' \<or> v = ''nearest'' \<or> v = ''point''
      then st\<lparr>texFilter := False\<rparr>
      else st\<lparr>err := err st @ msg_texFilter v\<rparr>)"

text \<open>\<^verbatim>\<open>isNum = (end && !*end)\<close>: the whole value was parsed (an empty value counts).\<close>

definition parse_value :: "Env \<Rightarrow> string option \<Rightarrow> rat \<times> bool" where
  "parse_value env v =
     (case v of
        None \<Rightarrow> (0, False)
      | Some text \<Rightarrow> (case strtof env text of (f, rest) \<Rightarrow> (f, rest = [])))"

definition eval_token :: "Env \<Rightarrow> string \<Rightarrow> string option \<Rightarrow> load_state \<Rightarrow> load_state" where
  "eval_token env key v st =
     (let fval = fst (parse_value env v); isNum = snd (parse_value env v);
          text = (case v of None \<Rightarrow> [] | Some t \<Rightarrow> t)
      in snd (if_chain
           [(andalso (orelse (isKey key ''min'') (isKey key ''off''))
               (andalso (needParam key) (needNum key isNum)),
             on_state (upd_param (\<lambda>p. p\<lparr>m_minValue := fval\<rparr>))),
            (andalso (orelse (isKey key ''max'') (isKey key ''on''))
               (andalso (needParam key) (needNum key isNum)),
             on_state (upd_param (\<lambda>p. p\<lparr>m_maxValue := fval\<rparr>))),
            (andalso (isKey key ''unit'') (andalso (needParam key) (needValue key v)),
             on_state (upd_param (\<lambda>p. p\<lparr>m_format := text\<rparr>))),
            (andalso (orelse (isKey key ''toggle'') (isKey key ''switch'')) (needParam key),
             (\<lambda>s. snd (setParamType key Float Toggle True s))),
            (andalso (isKey key ''color'') (needParam key),
             (\<lambda>s. snd (orelse (setParamType key Vec3 RGB False)
                               (setParamType key Vec4 RGBA True) s))),
            (andalso (orelse (orelse (isKey key ''coord'') (isKey key ''coords''))
                             (isKey key ''map''))
               (needValue key v),
             on_state (set_coordMode text)),
            (andalso (orelse (isKey key ''filter'') (isKey key ''filt'')) (needValue key v),
             on_state (set_texFilter text)),
            (notMatched, on_state (\<lambda>st. st\<lparr>err := err st @ msg_unrecognized key\<rparr>))]
           (False, st)))"

text \<open>The keys the chain tests for.\<close>

definition known_key :: "string \<Rightarrow> bool" where
  "known_key k =
     (k = ''min'' \<or> k = ''off'' \<or> k = ''max'' \<or> k = ''on'' \<or> k = ''unit'' \<or> k = ''toggle''
      \<or> k = ''switch'' \<or> k = ''color'' \<or> k = ''coord'' \<or> k = ''coords'' \<or> k = ''map''
      \<or> k = ''filter'' \<or> k = ''filt'')"


text \<open>The loader's state with the diagnostics written so far left out.\<close>

definition drop_err :: "load_state \<Rightarrow> load_state" where
  "drop_err st = st\<lparr>err := []\<rparr>"


subsection \<open>The comment loop\<close>

text \<open>\<^verbatim>\<open>strchr\<close>: the offset of the first occurrence, \<open>None\<close> for the null pointer.\<close>

definition strchr :: "string \<Rightarrow> char \<Rightarrow> nat option" where
  "strchr s c = (if c \<in> set s then Some (length (takeWhile (\<lambda>x. x \<noteq> c) s)) else None)"

lemma takeWhile_neq_less: "c \<in> set s \<Longrightarrow> length (takeWhile (\<lambda>x. x \<noteq> c) s) < length s"
  by (induction s) auto

lemma strchr_less: "strchr s c = Some n \<Longrightarrow> n < length s"
  by (auto simp add: strchr_def takeWhile_neq_less split: if_splits)

text \<open>
  One token, from the character after its \<^verbatim>\<open>@\<close>: the key, the value when a \<^verbatim>\<open>=\<close>
  follows the key, both folded to lower case, and the text left after the token and the
  one character that ends it (\<^verbatim>\<open>if (*pos) { *pos++ = '\0'; }\<close>).
\<close>

definition extract_token :: "Env \<Rightarrow> string \<Rightarrow> string \<times> string option \<times> string" where
  "extract_token env rear =
     (let key = map tolower (takeWhile (isident env) rear);
          r1 = dropWhile (isident env) rear;
          hasValue = (r1 \<noteq> [] \<and> hd r1 = CHR ''='');
          v = (if hasValue then Some (map tolower (takeWhile (isident env) (tl r1))) else None);
          r2 = (if hasValue then dropWhile (isident env) (tl r1) else r1)
      in (key, v, drop 1 r2))"

lemma extract_token_length: "length (snd (snd (extract_token env rear))) \<le> length rear"
proof -
  have a: "length (dropWhile (isident env) rear) \<le> length rear"
    by (rule length_dropWhile_le)
  have "length (dropWhile (isident env) (tl (dropWhile (isident env) rear)))
          \<le> length (tl (dropWhile (isident env) rear))"
    by (rule length_dropWhile_le)
  then have b: "length (dropWhile (isident env) (tl (dropWhile (isident env) rear))) \<le> length rear"
    using a by simp
  have "length (drop 1 (dropWhile (isident env) rear)) \<le> length rear"
    using a by simp
  moreover have "length (drop 1 (dropWhile (isident env) (tl (dropWhile (isident env) rear))))
                   \<le> length rear"
    using b by simp
  ultimately show ?thesis
    unfolding extract_token_def Let_def by (simp only: snd_conv split: if_split) blast
qed

text \<open>\<^verbatim>\<open>isalnum(pos[-1])\<close>: the \<^verbatim>\<open>@\<close> stands in the middle of a word.\<close>

definition mid_word :: "string \<Rightarrow> bool" where
  "mid_word front = (front \<noteq> [] \<and> isalnum (last front))"

text \<open>
  The loop that searches the comment for \<^verbatim>\<open>@key=value\<close> tokens. The buffer is split at
  \<^verbatim>\<open>pos\<close>: \<open>kept\<close> is the text before it, the last argument the text from it on. A token is
  evaluated and cut out of the buffer (the \<^verbatim>\<open>memmove\<close>), and the search goes on at the
  same place. The character before the start of the content is a \<^verbatim>\<open>/\<close>, \<^verbatim>\<open>*\<close> or \<^verbatim>\<open>!\<close> of
  the comment opener, never alphanumeric.
\<close>

function scan_comment :: "Env \<Rightarrow> load_state \<Rightarrow> string \<Rightarrow> string \<Rightarrow> load_state \<times> string" where
  "scan_comment env st kept rest =
     (case strchr rest (CHR ''@'') of
        None \<Rightarrow> (st, kept @ rest)
      | Some n \<Rightarrow>
          (let front = kept @ take n rest; rear = drop (Suc n) rest
           in if mid_word front
              then scan_comment env st (front @ ''@'') rear
              else scan_comment env
                     (eval_token env (fst (extract_token env rear))
                        (fst (snd (extract_token env rear))) st)
                     front (snd (snd (extract_token env rear)))))"
  by pat_completeness auto
termination
proof (relation "measure (\<lambda>(env, st, kept, rest). length rest)", goal_cases)
  case 1
  show ?case by simp
next
  case (2 env st kept rest n front rear)
  then show ?case using strchr_less [of rest "CHR ''@''" n] by simp
next
  case (3 env st kept rest n front rear)
  then show ?case
    using strchr_less [of rest "CHR ''@''" n] extract_token_length [of env rear] by simp
qed

declare scan_comment.simps [simp del]

text \<open>
  The same search without the evaluation: the tokens of a comment in the order the loop
  meets them, and the text that is left.
\<close>

function split_comment :: "Env \<Rightarrow> string \<Rightarrow> string \<Rightarrow> (string \<times> string option) list \<times> string" where
  "split_comment env kept rest =
     (case strchr rest (CHR ''@'') of
        None \<Rightarrow> ([], kept @ rest)
      | Some n \<Rightarrow>
          (let front = kept @ take n rest; rear = drop (Suc n) rest
           in if mid_word front
              then split_comment env (front @ ''@'') rear
              else (case split_comment env front (snd (snd (extract_token env rear))) of
                      (ts, text) \<Rightarrow>
                        ((fst (extract_token env rear), fst (snd (extract_token env rear))) # ts,
                         text))))"
  by pat_completeness auto
termination
proof (relation "measure (\<lambda>(env, kept, rest). length rest)", goal_cases)
  case 1
  show ?case by simp
next
  case (2 env kept rest n front rear)
  then show ?case using strchr_less [of rest "CHR ''@''" n] by simp
next
  case (3 env kept rest n front rear)
  then show ?case
    using strchr_less [of rest "CHR ''@''" n] extract_token_length [of env rear] by simp
qed

declare split_comment.simps [simp del]

fun eval_tokens :: "Env \<Rightarrow> (string \<times> string option) list \<Rightarrow> load_state \<Rightarrow> load_state" where
  "eval_tokens env [] st = st"
| "eval_tokens env ((key, v) # ts) st = eval_tokens env ts (eval_token env key v st)"

definition comment_content :: "string \<Rightarrow> string" where
  "comment_content text = (if text \<noteq> [] \<and> hd text = CHR ''!'' then tl text else text)"

definition annotations :: "Env \<Rightarrow> string \<Rightarrow> (string \<times> string option) list" where
  "annotations env text = fst (split_comment env [] (comment_content text))"

text \<open>A comment: the Doxygen \<^verbatim>\<open>!\<close> is skipped, the tokens are evaluated, what is left of the
  text becomes the description of the current parameter, and the parameter is forgotten.\<close>

definition handle_comment :: "Env \<Rightarrow> string \<Rightarrow> load_state \<Rightarrow> load_state" where
  "handle_comment env text st =
     (let content = comment_content text;
          st1 = fst (scan_comment env st [] content);
          content1 = snd (scan_comment env st [] content);
          desc = trimTrailingWhitespace (skipWhitespace content1);
          st2 = (if param st1 \<noteq> None \<and> desc \<noteq> []
                 then upd_param (\<lambda>p. p\<lparr>m_desc := desc\<rparr>) st1 else st1)
      in st2\<lparr>param := None\<rparr>)"

subsection \<open>The declaration classifier\<close>

text \<open>A default-constructed \<^verbatim>\<open>Parameter\<close> with the name and the type the loader gives it.\<close>

definition new_parameter :: "Env \<Rightarrow> string \<Rightarrow> ParameterType \<Rightarrow> Parameter" where
  "new_parameter env name t =
     \<lparr>m_name = name, m_desc = [], m_type = t, m_minValue = minValue0 env,
      m_maxValue = maxValue0 env, m_value = [0, 0, 0, 0], m_format = [],
      m_location = [- 1, - 1, - 1, - 1]\<rparr>"

definition default_type :: "GLSLToken \<Rightarrow> ParameterType" where
  "default_type dt =
     (case dt of Float \<Rightarrow> Value | Vec2 \<Rightarrow> Value2 | Vec3 \<Rightarrow> Value3 | Vec4 \<Rightarrow> Value4
      | _ \<Rightarrow> Value)"

definition is_pass_pattern :: "GLSLToken list \<Rightarrow> bool" where
  "is_pass_pattern h =
     ((h ! 3 = Vec3 \<or> h ! 3 = Vec4)
      \<and> (h ! 2 = RunSingle \<or> h ! 2 = RunPass1 \<or> h ! 2 = RunPass2 \<or> h ! 2 = RunPass3
           \<or> h ! 2 = RunPass4)
      \<and> h ! 1 = OpenParens
      \<and> (h ! 0 = Vec2 \<or> h ! 0 = Vec3 \<or> h ! 0 = Vec4))"

text \<open>The body of the pass-definition branch. Its three switches, on \<^verbatim>\<open>tt[2]\<close>, \<^verbatim>\<open>tt[0]\<close>
  and \<^verbatim>\<open>tt[3]\<close>, come first; their \<^verbatim>\<open>default: assert(0)\<close> cases, which leave the variable
  as it is, cannot be reached under \<open>is_pass_pattern\<close>.\<close>

definition pass_of :: "GLSLToken \<Rightarrow> nat \<Rightarrow> nat" where
  "pass_of t cur =
     (case t of RunSingle \<Rightarrow> 0 | RunPass1 \<Rightarrow> 0 | RunPass2 \<Rightarrow> 1 | RunPass3 \<Rightarrow> 2
      | RunPass4 \<Rightarrow> 3 | _ \<Rightarrow> cur)"

definition single_of :: "GLSLToken \<Rightarrow> bool \<Rightarrow> bool" where
  "single_of t cur = (case t of RunSingle \<Rightarrow> True | RunPass1 \<Rightarrow> False | _ \<Rightarrow> cur)"

definition input_of :: "GLSLToken \<Rightarrow> PassInput \<Rightarrow> PassInput" where
  "input_of t cur = (case t of Vec2 \<Rightarrow> Coord | Vec3 \<Rightarrow> InRGB | Vec4 \<Rightarrow> InRGBA | _ \<Rightarrow> cur)"

definition output_of :: "GLSLToken \<Rightarrow> PassOutput \<Rightarrow> PassOutput" where
  "output_of t cur = (case t of Vec3 \<Rightarrow> OutRGB | Vec4 \<Rightarrow> OutRGBA | _ \<Rightarrow> cur)"

definition declare_pass :: "load_state \<Rightarrow> load_state" where
  "declare_pass st =
     (let cp = pass_of (tt st ! 2) (currentPass st);
          st1 = st\<lparr>currentPass := cp, singlePass := single_of (tt st ! 2) (singlePass st),
                   passMask := passMask st OR push_bit cp 1\<rparr>
      in if cp \<ge> MaxPasses then st1
         else st1\<lparr>inputs := (inputs st)[cp := input_of (tt st ! 0) (inputs st ! cp)],
                  outputs := (outputs st)[cp := output_of (tt st ! 3) (outputs st ! cp)],
                  passes := (passes st)[cp := (passes st ! cp)
                                \<lparr>pass_texFilter := texFilter st, pass_coordMode := coordMode st\<rparr>]\<rparr>)"

text \<open>One token that is not a comment. The steps of the loop body, in the source's order:
  the token type enters the history; a uniform declaration is recognised; the \<^verbatim>\<open>=\<close> of a
  default value is met; a number of the default value is stored; a \<^verbatim>\<open>;\<close> ends the
  statement; a pass definition is recognised. Each \<^verbatim>\<open>continue\<close> ends the step.\<close>

definition push_history :: "GLSLToken \<Rightarrow> load_state \<Rightarrow> load_state" where
  "push_history newTT st = st\<lparr>tt := [newTT, tt st ! 0, tt st ! 1, tt st ! 2]\<rparr>"

definition declare_uniform :: "Env \<Rightarrow> string \<Rightarrow> load_state \<Rightarrow> load_state" where
  "declare_uniform env text st =
     (if tt st ! 1 = Float \<or> tt st ! 1 = Vec2 \<or> tt st ! 1 = Vec3 \<or> tt st ! 1 = Vec4
      then st\<lparr>newParams := newParams st @ [new_parameter env text (default_type (tt st ! 1))],
              param := Some (length (newParams st)),
              paramDataType := tt st ! 1,
              paramValueIndex := - 1,
              inParamStatement := True\<rparr>
      else st\<lparr>err := err st @ msg_unsupported text, inParamStatement := False\<rparr>)"

definition begins_default :: "string \<Rightarrow> load_state \<Rightarrow> bool" where
  "begins_default text st =
     (param st \<noteq> None \<and> inParamStatement st \<and> paramValueIndex st < 0 \<and> CHR ''='' \<in> set text)"

definition parse_default :: "Env \<Rightarrow> string \<Rightarrow> load_state \<Rightarrow> load_state" where
  "parse_default env text st =
     (if param st \<noteq> None \<and> inParamStatement st
         \<and> paramValueIndex st \<ge> 0 \<and> paramValueIndex st < 4
      then (if snd (strtof env text) = []
            then (upd_param (\<lambda>p. p\<lparr>m_value :=
                     (m_value p)[nat (paramValueIndex st) := fst (strtof env text)]\<rparr>) st)
                   \<lparr>paramValueIndex := paramValueIndex st + 1\<rparr>
            else st)
      else st)"

definition process_token :: "Env \<Rightarrow> string \<Rightarrow> load_state \<Rightarrow> load_state" where
  "process_token env text st0 =
     (if lookup tokenMap text = Ignored then st0
      else
        (let st = push_history (lookup tokenMap text) st0
         in if tt st ! 2 = Uniform then declare_uniform env text st
            else if begins_default text st then st\<lparr>paramValueIndex := 0\<rparr>
            else
              (let st1 = parse_default env text st
               in if CHR '';'' \<in> set text then st1\<lparr>inParamStatement := False\<rparr>
                  else if is_pass_pattern (tt st1) then declare_pass st1
                  else st1)))"

text \<open>The tokenizer loop \<^verbatim>\<open>while (tok.next())\<close>.\<close>

fun scan :: "Env \<Rightarrow> lexeme list \<Rightarrow> load_state \<Rightarrow> load_state" where
  "scan env [] st = st"
| "scan env (Comment text # ls) st = scan env ls (handle_comment env text st)"
| "scan env (Token text # ls) st = scan env ls (process_token env text st)"

text \<open>The locals as initialised at the top of \<^verbatim>\<open>Node::load\<close>. \<^verbatim>\<open>inputs\<close> and \<^verbatim>\<open>outputs\<close> are
  uninitialised arrays there; an entry is read only for a pass whose bit in \<^verbatim>\<open>passMask\<close> is
  set, which the declaration of that pass has written.\<close>

definition init_state :: "Node \<Rightarrow> load_state" where
  "init_state node =
     \<lparr>newParams = [], shader = [], err = [], param = None, paramDataType = Other,
      paramValueIndex = - 1, inParamStatement = False, currentPass = 0, passMask = 0,
      singlePass = False, inputs = replicate MaxPasses Coord,
      outputs = replicate MaxPasses OutRGB, texFilter = True, coordMode = Pixel,
      tt = [Other, Other, Other, Other], passes = m_passes node\<rparr>"

subsection \<open>Parameter formats and pass assembly\<close>

text \<open>The display format: \<^verbatim>\<open>%.<vscale>f\<close>, followed by the unit when there is one. The
  number of decimals comes out of a floating-point logarithm and is left to \<open>vscale\<close>.\<close>

definition finalize_format :: "Env \<Rightarrow> Parameter \<Rightarrow> Parameter" where
  "finalize_format env p =
     (let fmt = ''%.'' @ to_string (vscale env (m_minValue p) (m_maxValue p)) @ ''f''
      in if m_format p = [] then p\<lparr>m_format := fmt\<rparr>
         else p\<lparr>m_format := fmt @ '' '' @ m_format p\<rparr>)"

text \<open>The text one iteration of the pass loop writes to the stream \<^verbatim>\<open>shader\<close>, statement by
  statement.\<close>

definition pass_source :: "string \<Rightarrow> load_state \<Rightarrow> nat \<Rightarrow> string" where
  "pass_source code st k =
     (let input = inputs st ! k; output = outputs st ! k
      in ''#version 330 core'' @ [nl] @ ''#line 8000 0'' @ [nl] @ ''in vec2 gips_pos;'' @ [nl]
         @ ''out vec4 gips_frag;'' @ [nl] @ ''uniform sampler2D gips_tex;'' @ [nl]
         @ ''uniform vec2 gips_image_size;'' @ [nl]
         @ (if input = Coord
            then ''uniform vec4 gips_map2tex;'' @ [nl] @ ''vec4 pixel(in vec2 pos) {'' @ [nl]
                 @ ''  return texture(gips_tex, gips_map2tex.xy + pos * gips_map2tex.zw);'' @ [nl]
                 @ ''}'' @ [nl]
            else [])
         @ ''#line 1 '' @ to_string (k + 1) @ [nl] @ code
         @ [nl] @ ''#line 9000 0'' @ [nl] @ ''void main() {'' @ [nl]
         @ (if input \<noteq> Coord
            then ''  vec4 color = texture(gips_tex, gips_pos);'' @ [nl] else [])
         @ ''  gips_frag = ''
         @ (if output = OutRGB then ''vec4('' else [])
         @ ''run''
         @ (if k \<noteq> 0 \<or> \<not> singlePass st then ''_pass'' @ to_string (k + 1) else [])
         @ (case input of Coord \<Rightarrow> ''(gips_pos)'' | InRGB \<Rightarrow> ''(color.rgb)''
            | InRGBA \<Rightarrow> ''(color)'')
         @ (if output = OutRGB
            then (if input = Coord then '', 1.0)'' else '', color.a)'')
            else [])
         @ '';'' @ [nl] @ ''}'' @ [nl])"

text \<open>The name of the entry point the generated \<^verbatim>\<open>main\<close> calls (suffixed unless the pass
  is the single \<^verbatim>\<open>run\<close>), and the text of a pass up to the opening of \<^verbatim>\<open>main\<close>.\<close>

definition entry_point :: "load_state \<Rightarrow> nat \<Rightarrow> string" where
  "entry_point st k =
     ''run'' @ (if k \<noteq> 0 \<or> \<not> singlePass st then ''_pass'' @ to_string (k + 1) else [])"

definition pass_head :: "string \<Rightarrow> load_state \<Rightarrow> nat \<Rightarrow> string" where
  "pass_head code st k =
     ''#version 330 core'' @ [nl] @ ''#line 8000 0'' @ [nl] @ ''in vec2 gips_pos;'' @ [nl]
     @ ''out vec4 gips_frag;'' @ [nl] @ ''uniform sampler2D gips_tex;'' @ [nl]
     @ ''uniform vec2 gips_image_size;'' @ [nl]
     @ (if inputs st ! k = Coord
        then ''uniform vec4 gips_map2tex;'' @ [nl] @ ''vec4 pixel(in vec2 pos) {'' @ [nl]
             @ ''  return texture(gips_tex, gips_map2tex.xy + pos * gips_map2tex.zw);'' @ [nl]
             @ ''}'' @ [nl]
        else [])
     @ ''#line 1 '' @ to_string (k + 1) @ [nl] @ code
     @ [nl] @ ''#line 9000 0'' @ [nl] @ ''void main() {'' @ [nl]"

definition log_text :: "string option \<Rightarrow> string" where
  "log_text l = (case l of None \<Rightarrow> [] | Some t \<Rightarrow> t @ [nl])"

text \<open>
  The body of the pass loop for pass \<open>k\<close>; the flag is \<open>False\<close> where the source jumps to
  \<^verbatim>\<open>load_finalize\<close>. \<^verbatim>\<open>shader.clear()\<close> resets the state flags of the stream, not its
  text, so the text of the earlier passes stays in front. A pass records the source its
  program was linked from (\<open>None\<close> after a failed link).
\<close>

definition pass_body :: "Env \<Rightarrow> string \<Rightarrow> nat \<Rightarrow> load_state \<Rightarrow> bool \<times> load_state" where
  "pass_body env code k st =
     (let input = inputs st ! k;
          st1 = st\<lparr>passMask := passMask st AND NOT (push_bit k 1),
                   passes := (if input \<noteq> Coord
                              then (passes st)[k := (passes st ! k)\<lparr>pass_coordMode := CoordNone\<rparr>]
                              else passes st),
                   shader := shader st @ pass_source code st k\<rparr>;
          src = shader st1;
          st2 = st1\<lparr>err := err st1 @ log_text (fst (compile_fs env src))\<rparr>
      in if \<not> snd (compile_fs env src) then (False, st2)
         else
           (let st3 = st2\<lparr>err := err st2 @ log_text (fst (link_prog env src)),
                         passes := (passes st2)[k := (passes st2 ! k)
                            \<lparr>pass_program := (if snd (link_prog env src) then Some src else None)\<rparr>]\<rparr>
            in if \<not> snd (link_prog env src) then (False, st3)
               else (True,
                     st3\<lparr>passes := (passes st3)[k := (passes st3 ! k)
                            \<lparr>locImageSize := getUniformLocation env src ''gips_image_size'',
                             locRel2Map := getUniformLocation env src ''gips_rel2map'',
                             locMap2Tex := (if input = Coord
                                            then getUniformLocation env src ''gips_map2tex''
                                            else - 1)\<rparr>],
                         newParams := map (\<lambda>p. p\<lparr>m_location :=
                                        (m_location p)[k := getUniformLocation env src (m_name p)]\<rparr>)
                                      (newParams st3)\<rparr>)))"

text \<open>The condition of the pass loop:
  \<^verbatim>\<open>(currentPass < MaxPasses) && ((passMask >> currentPass) & 1)\<close>.\<close>

definition pass_pending :: "load_state \<Rightarrow> bool" where
  "pass_pending st =
     (currentPass st < MaxPasses \<and> (drop_bit (currentPass st) (passMask st)) AND 1 = 1)"

text \<open>The pass loop, from the current value of \<^verbatim>\<open>currentPass\<close> on.\<close>

function pass_loop :: "Env \<Rightarrow> string \<Rightarrow> load_state \<Rightarrow> bool \<times> load_state" where
  "pass_loop env code st =
     (if pass_pending st
      then (if fst (pass_body env code (currentPass st) st)
            then pass_loop env code
                   ((snd (pass_body env code (currentPass st) st))
                      \<lparr>currentPass := Suc (currentPass st)\<rparr>)
            else (False, snd (pass_body env code (currentPass st) st)))
      else (True, st))"
  by pat_completeness auto
termination
  by (relation "measure (\<lambda>(env, code, st). MaxPasses - currentPass st)")
     (auto simp add: pass_pending_def)

declare pass_loop.simps [simp del]

definition load_finalize :: "Node \<Rightarrow> load_state \<Rightarrow> nat \<Rightarrow> bool \<times> Node" where
  "load_finalize node st n =
     (n > 0, node\<lparr>m_passCount := n, m_errors := err st, m_params := newParams st,
                  m_passes := passes st\<rparr>)"

text \<open>\<^verbatim>\<open>Node::load\<close> from \<^verbatim>\<open>tok.init(code)\<close> on, for the text \<open>code\<close> and its lexemes.\<close>

definition scan_result :: "Env \<Rightarrow> lexeme list \<Rightarrow> Node \<Rightarrow> load_state" where
  "scan_result env lexemes node = scan env lexemes (init_state node)"

text \<open>\<^verbatim>\<open>Node::load\<close> after the tokenizer loop: parameter formats, the check for the first
  pass, the pass loop and \<^verbatim>\<open>load_finalize\<close>. \<^verbatim>\<open>m_passCount\<close>, set to 0 at the top, is only
  assigned when the loop has run to its end.\<close>

definition assemble :: "Env \<Rightarrow> string \<Rightarrow> Node \<Rightarrow> load_state \<Rightarrow> bool \<times> Node" where
  "assemble env code node st0 =
     (let st1 = st0\<lparr>newParams := map (finalize_format env) (newParams st0)\<rparr>
      in if passMask st1 AND 1 = 0
         then load_finalize node (st1\<lparr>err := err st1 @ msg_no_run\<rparr>) 0
         else (if fst (pass_loop env code (st1\<lparr>currentPass := 0\<rparr>))
               then (let st2 = snd (pass_loop env code (st1\<lparr>currentPass := 0\<rparr>))
                     in load_finalize node
                          (if passMask st2 \<noteq> 0 then st2\<lparr>err := err st2 @ msg_truncating\<rparr>
                           else st2)
                          (currentPass st2))
               else load_finalize node (snd (pass_loop env code (st1\<lparr>currentPass := 0\<rparr>))) 0))"

definition load_code :: "Env \<Rightarrow> string \<Rightarrow> lexeme list \<Rightarrow> Node \<Rightarrow> bool \<times> Node" where
  "load_code env code lexemes node = assemble env code node (scan_result env lexemes node)"

text \<open>In this version the text is not read from the file: two names select built-in
  filters, any other name the text \<^verbatim>\<open>DUMMY\<close>.\<close>

definition code_saturation :: string where
  "code_saturation =
     ''uniform float saturation = 1.0;  // @min=0 @max=5'' @ [nl]
     @ ''uniform vec3 key = vec3(.299, .587, .114);  // grayscale downmix'' @ [nl]
     @ ''uniform float invert;  // invert luminance @toggle'' @ [nl]
     @ ''uniform float sign = 1.0;  // invert chrominance @toggle @off=1 @on=-1'' @ [nl]
     @ ''vec3 run(vec3 c) {'' @ [nl]
     @ ''  float luma = dot(c, key / (key.r + key.g + key.b));'' @ [nl]
     @ ''  vec3 chroma = c - vec3(luma);'' @ [nl]
     @ ''  if (invert > 0.5) { luma = 1.0 - luma; }'' @ [nl]
     @ ''  return vec3(luma) + chroma * saturation * sign;'' @ [nl]
     @ ''}'' @ [nl]"

definition code_ripple :: string where
  "code_ripple =
     ''uniform float amplitude;  // @min=0 @max=0.2'' @ [nl]
     @ ''uniform float frequency = 50.0;  // @min=0 @max=200'' @ [nl]
     @ ''uniform float phase;  // @min=0 @max=6.28'' @ [nl]
     @ ''uniform vec2 center;  // @min=-2 @max=2'' @ [nl]
     @ ''// @coord=rel'' @ [nl]
     @ ''vec4 run(vec2 pos) {'' @ [nl]
     @ ''  vec2 tp = pos - center;'' @ [nl]
     @ ''  float d = length(tp);'' @ [nl]
     @ ''  vec2 n = tp / d;'' @ [nl]
     @ ''  d += amplitude * sin(frequency * d + phase);'' @ [nl]
     @ ''  return pixel(n * d + center);'' @ [nl]
     @ ''}'' @ [nl]"

definition select_code :: "string \<Rightarrow> string" where
  "select_code filename =
     (if filename = ''ripple'' then code_ripple
      else if filename = ''saturation'' then code_saturation
      else ''DUMMY'')"

definition Node_load :: "Env \<Rightarrow> string \<Rightarrow> Node \<Rightarrow> bool \<times> Node" where
  "Node_load env filename node =
     load_code env (select_code filename) (tokenize env (select_code filename))
       (node\<lparr>m_passCount := 0, m_filename := filename, m_name_node := filename\<rparr>)"

subsection \<open>A concrete environment for the examples\<close>

text \<open>
  \<open>strtof_dec\<close> reads a plain decimal numeral (sign, digits, fraction) the way \<^verbatim>\<open>strtof\<close>
  does and leaves the rest; identifier characters are letters, digits, underscore, point,
  plus and minus; the compiler and the linker accept every source without a log.
\<close>

definition isdigit :: "char \<Rightarrow> bool" where
  "isdigit c = (let n = (of_char c :: nat) in 48 \<le> n \<and> n \<le> 57)"

definition digits_value :: "string \<Rightarrow> rat" where
  "digits_value ds = foldl (\<lambda>acc c. acc * 10 + of_nat (of_char c - 48)) 0 ds"

definition strtof_dec :: "string \<Rightarrow> rat \<times> string" where
  "strtof_dec s =
     (let neg = (s \<noteq> [] \<and> hd s = CHR ''-'');
          s1 = (if s \<noteq> [] \<and> (hd s = CHR ''-'' \<or> hd s = CHR ''+'') then tl s else s);
          ip = takeWhile isdigit s1; s2 = dropWhile isdigit s1;
          fp = (if s2 \<noteq> [] \<and> hd s2 = CHR ''.'' then takeWhile isdigit (tl s2) else []);
          s3 = (if s2 \<noteq> [] \<and> hd s2 = CHR ''.'' then dropWhile isdigit (tl s2) else s2);
          v = digits_value ip + digits_value fp / 10 ^ length fp
      in if ip = [] \<and> fp = [] then (0, s) else (if neg then - v else v, s3))"

definition demo_isident :: "char \<Rightarrow> bool" where
  "demo_isident c = (isalnum c \<or> c = CHR ''_'' \<or> c = CHR ''.'' \<or> c = CHR ''-'' \<or> c = CHR ''+'')"

definition demo_gl :: Env where
  "demo_gl = \<lparr>isident = demo_isident, tokenize = (\<lambda>code. []), strtof = strtof_dec,
              compile_fs = (\<lambda>src. (None, True)), link_prog = (\<lambda>src. (None, True)),
              getUniformLocation = (\<lambda>src name. 0), minValue0 = 0, maxValue0 = 1,
              vscale = (\<lambda>lo hi. 2)\<rparr>"

definition blank_pass :: Pass where
  "blank_pass = \<lparr>pass_texFilter = True, pass_coordMode = CoordNone, pass_program = None,
                 locImageSize = - 1, locRel2Map = - 1, locMap2Tex = - 1\<rparr>"

definition blank_node :: Node where
  "blank_node = \<lparr>m_passCount = 0, m_filename = [], m_name_node = [],
                 m_passes = replicate MaxPasses blank_pass, m_params = [], m_errors = []\<rparr>"


definition run_rgb_lexemes :: "lexeme list" where
  "run_rgb_lexemes =
     [Token ''vec3'', Token ''run'', Token ''('', Token ''vec3'', Token ''c'', Token ''){'']"


















section \<open>Renumbering of the shown stage\<close>

lemma request_fields [simp]:
  "m_pcr (request t i j file app) = \<lparr>pcr_type = t, nodeIndex = i, targetIndex = j, path = file\<rparr>"
  "m_showIndex (request t i j file app) = m_showIndex app"
  "m_pipeline (request t i j file app) = m_pipeline app"
  by (simp_all add: request_def)

lemma resetPCR_fields [simp]:
  "m_showIndex (resetPCR app) = m_showIndex app"
  "m_pipeline (resetPCR app) = m_pipeline app"
  by (simp_all add: resetPCR_def)

lemma markAsChanged_nodes [simp]: "m_nodes (markAsChanged p) = m_nodes p"
  by (simp add: markAsChanged_def)

text \<open>
  C7. A remove request with a valid index deletes the node at that index; the shown index
  goes down by one exactly when it was at or after the removed node, and it stays at or
  above the input stage 0.
\<close>

theorem remove_renumbers_shown:
  assumes "0 < i" and "i \<le> nodeCount (m_pipeline app)" and "0 \<le> m_showIndex app"
  shows "nodes_after env (request RemoveNode i j file app)
           = take (nat (i - 1)) (m_nodes (m_pipeline app)) @ drop (nat i) (m_nodes (m_pipeline app))
         \<and> shown env (request RemoveNode i j file app)
           = (if m_showIndex app \<ge> i then m_showIndex app - 1 else m_showIndex app)
         \<and> 0 \<le> shown env (request RemoveNode i j file app)"
proof -
  have idx: "Suc (nat (i - 1)) = nat i" using assms(1) by simp
  have "nodes_after env (request RemoveNode i j file app)
          = m_nodes (removeNode (i - 1) (m_pipeline app))"
    using assms(1,2) by (simp add: nodes_after_def handlePCR_def Let_def)
  moreover have "m_nodes (removeNode (i - 1) (m_pipeline app))
          = take (nat (i - 1)) (m_nodes (m_pipeline app)) @ drop (nat i) (m_nodes (m_pipeline app))"
    using assms(1,2) idx by (simp add: removeNode_def)
  moreover have "shown env (request RemoveNode i j file app)
          = (if m_showIndex app \<ge> i then m_showIndex app - 1 else m_showIndex app)"
    using assms(1,2) by (simp add: shown_def handlePCR_def Let_def)
  ultimately show ?thesis using assms(1,3) by simp
qed

theorem remove_renumbers_shown_witness:
  "(0::int) < 2 \<and> 2 \<le> nodeCount (m_pipeline (demo_app [10, 20, 30] 2))
   \<and> 0 \<le> m_showIndex (demo_app [10, 20, 30] 2)
   \<and> nodes_after demo_env (request RemoveNode 2 0 [] (demo_app [10, 20, 30] 2)) = [10, 30]
   \<and> shown demo_env (request RemoveNode 2 0 [] (demo_app [10, 20, 30] 2)) = 1"
  using remove_renumbers_shown [of 2 "demo_app [10, 20, 30] 2" demo_env 0 "[]"]
  by (simp add: demo_app_def nodeCount_def)

text \<open>
  C6, as the code has it. When the node loads: a valid index \<open>i\<close> (1-based) puts the node at
  position \<open>i\<close> and the shown index goes up by one exactly when it was \<open>\<ge> i\<close>; an index out
  of range appends the node and the shown index goes up by one exactly when it was the old
  node count, that is, when the pipeline's final output was shown.
\<close>

theorem insert_renumbers_shown:
  assumes "load_node env file = Some n"
  shows "(0 < i \<and> i \<le> nodeCount (m_pipeline app) \<longrightarrow>
            nodes_after env (request InsertNode i j file app)
              = take (nat (i - 1)) (m_nodes (m_pipeline app)) @ [n]
                  @ drop (nat (i - 1)) (m_nodes (m_pipeline app))
            \<and> shown env (request InsertNode i j file app)
              = (if m_showIndex app \<ge> i then m_showIndex app + 1 else m_showIndex app))
         \<and> (\<not> (0 < i \<and> i \<le> nodeCount (m_pipeline app)) \<longrightarrow>
            nodes_after env (request InsertNode i j file app) = m_nodes (m_pipeline app) @ [n]
            \<and> shown env (request InsertNode i j file app)
              = (if m_showIndex app = nodeCount (m_pipeline app)
                 then m_showIndex app + 1 else m_showIndex app))"
  using assms
  by (auto simp add: nodes_after_def shown_def handlePCR_def Let_def addNode_def addNode_end_def)

theorem insert_renumbers_shown_witness:
  "load_node demo_env ''blur.glsl'' = Some 0
   \<and> nodes_after demo_env (request InsertNode 2 0 ''blur.glsl'' (demo_app [10, 20, 30] 3))
       = [10, 0, 20, 30]
   \<and> shown demo_env (request InsertNode 2 0 ''blur.glsl'' (demo_app [10, 20, 30] 3)) = 4
   \<and> nodes_after demo_env (request InsertNode 9 0 ''blur.glsl'' (demo_app [10, 20, 30] 1))
       = [10, 20, 30, 0]
   \<and> shown demo_env (request InsertNode 9 0 ''blur.glsl'' (demo_app [10, 20, 30] 1)) = 1"
  using insert_renumbers_shown [of demo_env "''blur.glsl''" 0 2 "demo_app [10, 20, 30] 3" 0]
        insert_renumbers_shown [of demo_env "''blur.glsl''" 0 9 "demo_app [10, 20, 30] 1" 0]
  by (simp add: demo_app_def demo_env_def nodeCount_def)

text \<open>
  C6 as stated fails for an index out of range: with two nodes and the final output shown
  (index 2), an insert at index 5 appends the node as number 3. The shown index was below
  the insertion point, whether that is read as the requested 5 or as the position 3 the
  node takes, yet it becomes 3.
\<close>

theorem insert_append_counterexample:
  "nodes_after demo_env (request InsertNode 5 0 ''blur.glsl'' (demo_app [10, 20] 2)) = [10, 20, 0]
   \<and> shown demo_env (request InsertNode 5 0 ''blur.glsl'' (demo_app [10, 20] 2)) = 3
   \<and> spec_insert_shown (m_showIndex (demo_app [10, 20] 2)) 5 = 2
   \<and> spec_insert_shown (m_showIndex (demo_app [10, 20] 2)) 3 = 2"
  by (simp add: nodes_after_def shown_def handlePCR_def Let_def addNode_def addNode_end_def
      request_def resetPCR_def demo_app_def demo_env_def nodeCount_def markAsChanged_def
      spec_insert_shown_def)

text \<open>
  C1, as the code has it. A move request with two valid, different indices relocates the
  node; the shown index shifts by one against the node's direction of travel when it lies
  strictly between the two indices, and is left as it is otherwise, also when it equals
  \<open>from\<close>.
\<close>

theorem move_renumbers_shown:
  assumes "0 < i" and "i \<le> nodeCount (m_pipeline app)"
    and "0 < j" and "j \<le> nodeCount (m_pipeline app)" and "i \<noteq> j"
  shows "nodes_after env (request MoveNode i j file app)
           = (let ns = m_nodes (m_pipeline app);
                  others = take (nat (i - 1)) ns @ drop (nat i) ns
              in take (nat (j - 1)) others @ [ns ! nat (i - 1)] @ drop (nat (j - 1)) others)
         \<and> shown env (request MoveNode i j file app)
           = (if min i j < m_showIndex app \<and> m_showIndex app < max i j
              then (if i < j then m_showIndex app - 1 else m_showIndex app + 1)
              else m_showIndex app)"
proof -
  have idx: "Suc (nat (i - 1)) = nat i" using assms(1) by simp
  have "nodes_after env (request MoveNode i j file app)
          = m_nodes (moveNode (i - 1) (j - 1) (m_pipeline app))"
    using assms by (simp add: nodes_after_def handlePCR_def Let_def)
  moreover have "m_nodes (moveNode (i - 1) (j - 1) (m_pipeline app))
          = (let ns = m_nodes (m_pipeline app);
                 others = take (nat (i - 1)) ns @ drop (nat i) ns
             in take (nat (j - 1)) others @ [ns ! nat (i - 1)] @ drop (nat (j - 1)) others)"
    using assms idx by (simp add: moveNode_def Let_def)
  moreover have "shown env (request MoveNode i j file app)
          = (if min i j < m_showIndex app \<and> m_showIndex app < max i j
             then (if i < j then m_showIndex app - 1 else m_showIndex app + 1)
             else m_showIndex app)"
    using assms by (simp add: shown_def handlePCR_def Let_def)
  ultimately show ?thesis by simp
qed

theorem move_renumbers_shown_witness:
  "(0::int) < 1 \<and> 1 \<le> nodeCount (m_pipeline (demo_app [10, 20, 30] 2))
   \<and> (0::int) < 3 \<and> 3 \<le> nodeCount (m_pipeline (demo_app [10, 20, 30] 2)) \<and> (1::int) \<noteq> 3
   \<and> nodes_after demo_env (request MoveNode 1 3 [] (demo_app [10, 20, 30] 2)) = [20, 30, 10]
   \<and> shown demo_env (request MoveNode 1 3 [] (demo_app [10, 20, 30] 2)) = 1"
  using move_renumbers_shown [of 1 "demo_app [10, 20, 30] 2" 3 demo_env "[]"]
  by (simp add: demo_app_def nodeCount_def Let_def)

text \<open>
  C1 as stated fails when the shown index equals \<open>from\<close>: with two nodes and stage 1
  shown, moving node 1 to position 2 leaves the shown index at 1; it does not travel to 2.
\<close>

theorem move_from_shown_counterexample:
  "nodes_after demo_env (request MoveNode 1 2 [] (demo_app [10, 20] 1)) = [20, 10]
   \<and> shown demo_env (request MoveNode 1 2 [] (demo_app [10, 20] 1)) = 1
   \<and> spec_move_shown (m_showIndex (demo_app [10, 20] 1)) 1 2 = 2"
  by (simp add: nodes_after_def shown_def handlePCR_def Let_def moveNode_def
      request_def resetPCR_def demo_app_def nodeCount_def markAsChanged_def
      spec_move_shown_def)

section \<open>Annotation tokens\<close>

lemmas cond_defs = andalso_def orelse_def isKey_def needParam_def needValue_def needNum_def
  setParamType_def notMatched_def on_state_def

text \<open>The \<^verbatim>\<open>if ... else if\<close> chain of the token evaluation, branch by branch.\<close>

lemmas upd_defs = upd_param_def set_coordMode_def set_texFilter_def

lemma eight_cases:
  assumes "A \<Longrightarrow> P" and "B \<Longrightarrow> P" and "C \<Longrightarrow> P" and "D \<Longrightarrow> P" and "E \<Longrightarrow> P"
    and "F \<Longrightarrow> P" and "G \<Longrightarrow> P"
    and "\<not> A \<Longrightarrow> \<not> B \<Longrightarrow> \<not> C \<Longrightarrow> \<not> D \<Longrightarrow> \<not> E \<Longrightarrow> \<not> F \<Longrightarrow> \<not> G \<Longrightarrow> P"
  shows P
  using assms by blast

lemma key_cases [case_names kmin kmax kunit ktoggle kcolor kcoord kfilter kother]:
  assumes "k = ''min'' \<or> k = ''off'' \<Longrightarrow> P" and "k = ''max'' \<or> k = ''on'' \<Longrightarrow> P"
    and "k = ''unit'' \<Longrightarrow> P" and "k = ''toggle'' \<or> k = ''switch'' \<Longrightarrow> P"
    and "k = ''color'' \<Longrightarrow> P" and "k = ''coord'' \<or> k = ''coords'' \<or> k = ''map'' \<Longrightarrow> P"
    and "k = ''filter'' \<or> k = ''filt'' \<Longrightarrow> P" and "\<not> known_key k \<Longrightarrow> P"
  shows P
proof (rule eight_cases [of "k = ''min'' \<or> k = ''off''" P "k = ''max'' \<or> k = ''on''"
      "k = ''unit''" "k = ''toggle'' \<or> k = ''switch''" "k = ''color''"
      "k = ''coord'' \<or> k = ''coords'' \<or> k = ''map''" "k = ''filter'' \<or> k = ''filt''"])
  fix dummy :: nat
  assume "\<not> (k = ''min'' \<or> k = ''off'')" "\<not> (k = ''max'' \<or> k = ''on'')" "k \<noteq> ''unit''"
    "\<not> (k = ''toggle'' \<or> k = ''switch'')" "k \<noteq> ''color''"
    "\<not> (k = ''coord'' \<or> k = ''coords'' \<or> k = ''map'')" "\<not> (k = ''filter'' \<or> k = ''filt'')"
  then have "\<not> known_key k" unfolding known_key_def by (intro notI) (elim disjE; simp)
  then show P by (rule assms(8))
qed (rule assms; assumption)+

lemma eval_min:
  "k = ''min'' \<or> k = ''off'' \<Longrightarrow>
   eval_token env k v st =
     (if param st = None then st\<lparr>err := err st @ msg_needParam k\<rparr>
      else if \<not> snd (parse_value env v) then st\<lparr>err := err st @ msg_needNum k\<rparr>
      else upd_param (\<lambda>p. p\<lparr>m_minValue := fst (parse_value env v)\<rparr>) st)"
  by (erule disjE) (simp_all add: eval_token_def Let_def cond_defs)

lemma eval_max:
  "k = ''max'' \<or> k = ''on'' \<Longrightarrow>
   eval_token env k v st =
     (if param st = None then st\<lparr>err := err st @ msg_needParam k\<rparr>
      else if \<not> snd (parse_value env v) then st\<lparr>err := err st @ msg_needNum k\<rparr>
      else upd_param (\<lambda>p. p\<lparr>m_maxValue := fst (parse_value env v)\<rparr>) st)"
  by (erule disjE) (simp_all add: eval_token_def Let_def cond_defs)

lemma eval_unit:
  "k = ''unit'' \<Longrightarrow>
   eval_token env k v st =
     (if param st = None then st\<lparr>err := err st @ msg_needParam k\<rparr>
      else if v = None then st\<lparr>err := err st @ msg_needValue k\<rparr>
      else upd_param (\<lambda>p. p\<lparr>m_format := (case v of None \<Rightarrow> [] | Some t \<Rightarrow> t)\<rparr>) st)"
  by (simp_all add: eval_token_def Let_def cond_defs)

lemma eval_toggle:
  "k = ''toggle'' \<or> k = ''switch'' \<Longrightarrow>
   eval_token env k v st =
     (if param st = None then st\<lparr>err := err st @ msg_needParam k\<rparr>
      else if paramDataType st \<noteq> Float
      then st\<lparr>err := err st @ msg_incompatible k (param_name st)\<rparr>
      else upd_param (\<lambda>p. p\<lparr>m_type := Toggle\<rparr>) st)"
  by (erule disjE) (simp_all add: eval_token_def Let_def cond_defs)

lemma eval_color:
  "k = ''color'' \<Longrightarrow>
   eval_token env k v st =
     (if param st = None then st\<lparr>err := err st @ msg_needParam k\<rparr>
      else if paramDataType st = Vec3 then upd_param (\<lambda>p. p\<lparr>m_type := RGB\<rparr>) st
      else if paramDataType st = Vec4 then upd_param (\<lambda>p. p\<lparr>m_type := RGBA\<rparr>) st
      else st\<lparr>err := err st @ msg_incompatible k (param_name st)\<rparr>)"
  by (simp_all add: eval_token_def Let_def cond_defs)

lemma eval_coord:
  "k = ''coord'' \<or> k = ''coords'' \<or> k = ''map'' \<Longrightarrow>
   eval_token env k v st =
     (case v of None \<Rightarrow> st\<lparr>err := err st @ msg_needValue k\<rparr>
      | Some text \<Rightarrow> set_coordMode text st)"
  by (elim disjE) (simp_all add: eval_token_def Let_def cond_defs split: option.splits)

lemma eval_filter:
  "k = ''filter'' \<or> k = ''filt'' \<Longrightarrow>
   eval_token env k v st =
     (case v of None \<Rightarrow> st\<lparr>err := err st @ msg_needValue k\<rparr>
      | Some text \<Rightarrow> set_texFilter text st)"
  by (elim disjE) (simp_all add: eval_token_def Let_def cond_defs split: option.splits)

lemma eval_other:
  "\<not> known_key k \<Longrightarrow> eval_token env k v st = st\<lparr>err := err st @ msg_unrecognized k\<rparr>"
  by (simp add: known_key_def eval_token_def Let_def cond_defs)

text \<open>The comment loop evaluates the tokens of the comment one after the other, whatever
  the evaluation of the earlier ones did.\<close>

lemma scan_comment_split:
  "scan_comment env st kept rest =
     (eval_tokens env (fst (split_comment env kept rest)) st, snd (split_comment env kept rest))"
proof (induction env kept rest arbitrary: st rule: split_comment.induct)
  case (1 env kept rest)
  show ?case
  proof (cases "strchr rest (CHR ''@'')")
    case None
    then show ?thesis
      by (subst scan_comment.simps, subst (1 2) split_comment.simps) simp
  next
    case (Some n)
    show ?thesis
    proof (cases "mid_word (kept @ take n rest)")
      case True
      then show ?thesis
        using Some "1.IH"(1) [OF Some refl refl True, of st]
        by (subst scan_comment.simps, subst (1 2) split_comment.simps) (simp add: Let_def)
    next
      case False
      then show ?thesis
        using Some "1.IH"(2) [OF Some refl refl False]
        by (subst scan_comment.simps, subst (1 2) split_comment.simps)
           (simp add: Let_def split: prod.splits)
    qed
  qed
qed

lemmas eval_branches = eval_min eval_max eval_unit eval_toggle eval_color eval_coord eval_filter
  eval_other

text \<open>What a token can change: the parameters, the diagnostics and the two sticky modes.\<close>

lemma eval_token_frame:
  "eval_token env k v st =
     st\<lparr>newParams := newParams (eval_token env k v st), err := err (eval_token env k v st),
        texFilter := texFilter (eval_token env k v st),
        coordMode := coordMode (eval_token env k v st)\<rparr>"
  by (cases k rule: key_cases) (simp_all add: eval_branches upd_defs split: option.splits)

lemma eval_token_keeps:
  "param (eval_token env k v st) = param st"
  "paramDataType (eval_token env k v st) = paramDataType st"
  "paramValueIndex (eval_token env k v st) = paramValueIndex st"
  "inParamStatement (eval_token env k v st) = inParamStatement st"
  "currentPass (eval_token env k v st) = currentPass st"
  "passMask (eval_token env k v st) = passMask st"
  "singlePass (eval_token env k v st) = singlePass st"
  "inputs (eval_token env k v st) = inputs st"
  "outputs (eval_token env k v st) = outputs st"
  "tt (eval_token env k v st) = tt st"
  "passes (eval_token env k v st) = passes st"
  "shader (eval_token env k v st) = shader st"
  by (subst eval_token_frame, simp)+





lemma handle_comment_fold:
  "handle_comment env text st =
     (let st1 = eval_tokens env (annotations env text) st;
          desc = trimTrailingWhitespace
                   (skipWhitespace (snd (split_comment env [] (comment_content text))))
      in (if param st1 \<noteq> None \<and> desc \<noteq> [] then upd_param (\<lambda>p. p\<lparr>m_desc := desc\<rparr>) st1
          else st1)\<lparr>param := None\<rparr>)"
  by (simp add: handle_comment_def annotations_def scan_comment_split Let_def)







section \<open>The diagnostics do not steer the loader\<close>


lemma drop_err_set_err [simp]: "drop_err (st\<lparr>err := e\<rparr>) = drop_err st"
  by (simp add: drop_err_def)

lemma drop_err_idem [simp]: "drop_err (drop_err st) = drop_err st"
  by (simp add: drop_err_def)















lemma pass_source_err [simp]: "pass_source code (st\<lparr>err := e\<rparr>) k = pass_source code st k"
  by (simp add: pass_source_def)










section \<open>Assembled sources\<close>

lemma to_string_digits:
  "to_string 1 = ''1''" "to_string 2 = ''2''" "to_string 3 = ''3''" "to_string 4 = ''4''"
  "to_string (Suc 0) = ''1''"
  by code_simp+

text \<open>
  C8. The pass loop appends the text of pass \<open>k\<close> to the stream. That text ends with the
  output statement: for a declared output RGB the call of the entry point is wrapped in
  \<^verbatim>\<open>vec4(..., 1.0)\<close> when the input is a position and in \<^verbatim>\<open>vec4(..., color.a)\<close> when the input
  is RGB or RGBA, \<^verbatim>\<open>color\<close> being the source pixel fetched in the line before; for a
  declared output RGBA the call stands alone.
\<close>

theorem output_statement_coercion:
  "shader (snd (pass_body env code k st)) = shader st @ pass_source code st k
   \<and> pass_source code st k =
       pass_head code st k
       @ (case (outputs st ! k, inputs st ! k) of
            (OutRGB, Coord) \<Rightarrow>
              ''  gips_frag = vec4('' @ entry_point st k @ ''(gips_pos), 1.0);''
          | (OutRGB, InRGB) \<Rightarrow>
              ''  vec4 color = texture(gips_tex, gips_pos);'' @ [nl]
              @ ''  gips_frag = vec4('' @ entry_point st k @ ''(color.rgb), color.a);''
          | (OutRGB, InRGBA) \<Rightarrow>
              ''  vec4 color = texture(gips_tex, gips_pos);'' @ [nl]
              @ ''  gips_frag = vec4('' @ entry_point st k @ ''(color), color.a);''
          | (OutRGBA, Coord) \<Rightarrow>
              ''  gips_frag = '' @ entry_point st k @ ''(gips_pos);''
          | (OutRGBA, InRGB) \<Rightarrow>
              ''  vec4 color = texture(gips_tex, gips_pos);'' @ [nl]
              @ ''  gips_frag = '' @ entry_point st k @ ''(color.rgb);''
          | (OutRGBA, InRGBA) \<Rightarrow>
              ''  vec4 color = texture(gips_tex, gips_pos);'' @ [nl]
              @ ''  gips_frag = '' @ entry_point st k @ ''(color);'')
       @ [nl] @ ''}'' @ [nl]"
proof -
  have a: "shader (snd (pass_body env code k st)) = shader st @ pass_source code st k"
    by (simp add: pass_body_def Let_def)
  have b: "pass_source code st k =
       pass_head code st k
       @ (case (outputs st ! k, inputs st ! k) of
            (OutRGB, Coord) \<Rightarrow>
              ''  gips_frag = vec4('' @ entry_point st k @ ''(gips_pos), 1.0);''
          | (OutRGB, InRGB) \<Rightarrow>
              ''  vec4 color = texture(gips_tex, gips_pos);'' @ [nl]
              @ ''  gips_frag = vec4('' @ entry_point st k @ ''(color.rgb), color.a);''
          | (OutRGB, InRGBA) \<Rightarrow>
              ''  vec4 color = texture(gips_tex, gips_pos);'' @ [nl]
              @ ''  gips_frag = vec4('' @ entry_point st k @ ''(color), color.a);''
          | (OutRGBA, Coord) \<Rightarrow>
              ''  gips_frag = '' @ entry_point st k @ ''(gips_pos);''
          | (OutRGBA, InRGB) \<Rightarrow>
              ''  vec4 color = texture(gips_tex, gips_pos);'' @ [nl]
              @ ''  gips_frag = '' @ entry_point st k @ ''(color.rgb);''
          | (OutRGBA, InRGBA) \<Rightarrow>
              ''  vec4 color = texture(gips_tex, gips_pos);'' @ [nl]
              @ ''  gips_frag = '' @ entry_point st k @ ''(color);'')
       @ [nl] @ ''}'' @ [nl]"
    by (cases "outputs st ! k"; cases "inputs st ! k")
       (simp_all add: pass_source_def pass_head_def entry_point_def Let_def)
  show ?thesis using a b by (rule conjI)
qed

theorem output_statement_coercion_witness:
  "pass_program (m_passes (snd (load_code demo_gl ''vec3 run(vec3 c) { return c; }'' run_rgb_lexemes blank_node)) ! 0)
     = Some (''#version 330 core'' @ [nl] @ ''#line 8000 0'' @ [nl] @ ''in vec2 gips_pos;'' @ [nl]
        @ ''out vec4 gips_frag;'' @ [nl] @ ''uniform sampler2D gips_tex;'' @ [nl]
        @ ''uniform vec2 gips_image_size;'' @ [nl] @ ''#line 1 1'' @ [nl]
        @ ''vec3 run(vec3 c) { return c; }'' @ [nl] @ ''#line 9000 0'' @ [nl]
        @ ''void main() {'' @ [nl] @ ''  vec4 color = texture(gips_tex, gips_pos);'' @ [nl]
        @ ''  gips_frag = vec4(run(color.rgb), color.a);'' @ [nl] @ ''}'' @ [nl])"
proof -
  let ?code = "''vec3 run(vec3 c) { return c; }''"
  let ?st = "(scan_result demo_gl run_rgb_lexemes blank_node)\<lparr>currentPass := 0\<rparr>"
  have io: "outputs ?st ! 0 = OutRGB" "inputs ?st ! 0 = InRGB" "singlePass ?st" "shader ?st = []"
    by code_simp+
  have p: "pass_program (m_passes (snd (load_code demo_gl ?code run_rgb_lexemes blank_node)) ! 0)
             = Some (shader (snd (pass_body demo_gl ?code 0 ?st)))"
    by code_simp
  show ?thesis
    unfolding p using output_statement_coercion [of demo_gl ?code 0 ?st] io
    by (simp add: pass_head_def entry_point_def to_string_digits)
qed

section \<open>Parameter declarations\<close>














section \<open>Coordinate modes\<close>


















section \<open>The pass loop\<close>





















lemma eval_tokens_shader: "shader (eval_tokens env ts st) = shader st"
  by (induction ts arbitrary: st) (auto simp add: eval_token_keeps)




lemma scan_shader: "shader (scan env ls st) = shader st"
proof (induction ls arbitrary: st)
  case Nil
  show ?case by simp
next
  case (Cons l ls)
  have hc: "shader (handle_comment env str st) = shader st" for str
    by (simp add: handle_comment_fold Let_def upd_param_def eval_tokens_shader split: option.splits)
  have pt: "shader (process_token env str st) = shader st" for str
    by (simp add: process_token_def Let_def push_history_def declare_uniform_def
        parse_default_def upd_param_def declare_pass_def split: option.splits)
  show ?case using Cons.IH by (cases l) (simp_all add: hc pt)
qed


section \<open>The compiled-pass count\<close>







end
